theory Spec2Isabelle
  imports Main "HOL-Library.Word" "HOL-Library.AList"
begin

section \<open>The chat client of minagishl/message\<close>

text \<open>
  The repository is one React component, \<^verbatim>\<open>App\<close> in \<^verbatim>\<open>src/App.tsx\<close>. Its state lives
  in \<^verbatim>\<open>useState\<close> cells, its handlers are \<^verbatim>\<open>async\<close> functions that call the Supabase
  client and resume when the answer arrives. The embedding keeps the cells as one record,
  writes every handler as a function on that record, takes the backend's answer as an
  argument, and returns the calls a handler makes (requests, toasts, console, sound,
  scrolling) as a list of effects in the order the source makes them; the subscriptions
  that the source's effects set up and tear down are not listed. A handler is cut at its \<^verbatim>\<open>await\<close>: the part
  before it reads the values of the render the handler was created in, the part after it
  (\<open>_resume\<close>) writes to whatever the state is when the answer arrives.
\<close>

subsection \<open>Strings\<close>

text \<open>
  A JavaScript string is a sequence of 16-bit code units. \<^verbatim>\<open>String.prototype.trim\<close>
  removes, at both ends, the code units of ECMAScript's WhiteSpace and LineTerminator
  productions: TAB, LF, VT, FF, CR, SP, NBSP, U+1680, U+2000 to U+200A, U+2028, U+2029,
  U+202F, U+205F, U+3000 and U+FEFF.
\<close>

type_synonym jsstring = "16 word list"

definition is_js_space :: "16 word \<Rightarrow> bool" where
  "is_js_space c \<longleftrightarrow>
     c \<in> set [0x9, 0xA, 0xB, 0xC, 0xD, 0x20, 0xA0, 0x1680,
              0x2000, 0x2001, 0x2002, 0x2003, 0x2004, 0x2005, 0x2006, 0x2007, 0x2008,
              0x2009, 0x200A, 0x2028, 0x2029, 0x202F, 0x205F, 0x3000, 0xFEFF]"

definition trim :: "jsstring \<Rightarrow> jsstring" where
  "trim s = rev (dropWhile is_js_space (rev (dropWhile is_js_space s)))"

text \<open>
  \<^verbatim>\<open>a || b\<close> on values that are a string, \<^verbatim>\<open>null\<close> or \<^verbatim>\<open>undefined\<close>: the left
  operand when it is truthy (a non-empty string), the right one otherwise.
\<close>

definition js_or :: "jsstring option \<Rightarrow> jsstring option \<Rightarrow> jsstring option" where
  "js_or a b = (case a of Some (c # cs) \<Rightarrow> a | _ \<Rightarrow> b)"

subsection \<open>Data\<close>

text \<open>
  \<^verbatim>\<open>interface Message\<close> (App.tsx, lines 16 to 23). The field \<^verbatim>\<open>id\<close> is \<open>msg_id\<close>
  here, since \<open>id\<close> is HOL's identity. \<^verbatim>\<open>created_at\<close> is the column
  \<^verbatim>\<open>created_at timestamptz DEFAULT now()\<close> of the migration; the client holds its ISO
  serialisation and never inspects it, while the order the queries ask for
  (\<^verbatim>\<open>.order("created_at", ...)\<close>) is the order of the instants. The field is the instant,
  in microseconds, the resolution of the column.
\<close>

record message =
  msg_id :: jsstring
  user_id :: jsstring
  content :: jsstring
  created_at :: int
  user_avatar :: "jsstring option"
  user_name :: "jsstring option"

text \<open>
  The part of Supabase's \<^verbatim>\<open>Session\<close> that the component reads: \<^verbatim>\<open>session.user.id\<close>,
  \<^verbatim>\<open>session.user.email\<close>, \<^verbatim>\<open>session.user.user_metadata.user_name\<close> and
  \<^verbatim>\<open>.avatar_url\<close>. Field names that the message also has carry a prefix.
\<close>

record user_metadata =
  meta_user_name :: "jsstring option"
  avatar_url :: "jsstring option"

record user =
  uid :: jsstring
  email :: "jsstring option"
  user_metadata :: user_metadata

record session =
  user :: user

text \<open>The row object that \<^verbatim>\<open>handleSendMessage\<close> passes to \<^verbatim>\<open>insert\<close> (lines 113 to 118).\<close>

record insert_row =
  row_content :: jsstring
  row_user_id :: jsstring
  row_user_name :: "jsstring option"
  row_user_avatar :: "jsstring option"

text \<open>
  The answer of a Supabase call is the union \<^verbatim>\<open>{data, error: null} | {data: null, error}\<close>;
  the handlers test \<^verbatim>\<open>error\<close> first. An auth call and an insert carry no data the
  component reads.
\<close>

datatype backend_error = BackendError jsstring

datatype 'a response = Success 'a | Failure backend_error

text \<open>
  The element with id \<^verbatim>\<open>messages\<close>, as far as \<^verbatim>\<open>fetchMessages\<close> reads and writes it,
  in CSS pixels. Assigning \<^verbatim>\<open>scrollTop\<close> stores the value clamped to the scrollable
  range \<open>0 .. scrollHeight - clientHeight\<close>, as the DOM does.
\<close>

record scroll_box =
  scrollHeight :: int
  scrollTop :: int
  clientHeight :: int

definition set_scrollTop :: "int \<Rightarrow> scroll_box \<Rightarrow> scroll_box" where
  "set_scrollTop v box = box\<lparr>scrollTop := max 0 (min v (scrollHeight box - clientHeight box))\<rparr>"

text \<open>The calls a handler makes, in the order it makes them.\<close>

datatype effect =
    PreventDefault
  | InsertRequest insert_row
  | SelectLimit nat
  | SelectRange nat nat
  | SignInWithOAuth
  | SignOut
  | ToastError string
  | ConsoleLog jsstring
  | PlaySound
  | ScrollIntoView
  | SetTimeout nat effect
  | RequestAnimationFrame int

text \<open>The \<^verbatim>\<open>useState\<close> cells of \<^verbatim>\<open>App\<close> (lines 28 to 33), with their initial values.\<close>

record app_state =
  session :: "session option"
  messages :: "message list"
  newMessage :: jsstring
  isNotificationEnabled :: bool
  isLoading :: bool
  hasMore :: bool

definition MESSAGES_PER_PAGE :: nat where
  "MESSAGES_PER_PAGE = 50"

definition initial_state :: app_state where
  "initial_state = \<lparr>session = None, messages = [], newMessage = [],
     isNotificationEnabled = False, isLoading = False, hasMore = True\<rparr>"

subsection \<open>Sending a message\<close>

text \<open>
  \<^verbatim>\<open>handleSendMessage\<close> (lines 108 to 131). Before the \<^verbatim>\<open>await\<close>:
  \<^verbatim>\<open>if (!newMessage.trim() || !session) return;\<close> and then the row of the insert, built
  from the draft as typed (not trimmed) and the session's user.
\<close>

definition handleSendMessage_request :: "app_state \<Rightarrow> insert_row option" where
  "handleSendMessage_request s =
     (if trim (newMessage s) = [] then None
      else case session s of
             None \<Rightarrow> None
           | Some ss \<Rightarrow>
               Some \<lparr>row_content = newMessage s,
                     row_user_id = uid (user ss),
                     row_user_name =
                       js_or (meta_user_name (user_metadata (user ss))) (email (user ss)),
                     row_user_avatar = avatar_url (user_metadata (user ss))\<rparr>)"

text \<open>
  After the \<^verbatim>\<open>await\<close>: on an error the toast and \<^verbatim>\<open>return\<close>; otherwise
  \<^verbatim>\<open>setNewMessage("")\<close> and the delayed scroll to the end of the list.
\<close>

definition handleSendMessage_resume ::
  "unit response \<Rightarrow> app_state \<Rightarrow> app_state \<times> effect list" where
  "handleSendMessage_resume r s =
     (case r of
        Failure e \<Rightarrow> (s, [ToastError ''Failed to send message''])
      | Success u \<Rightarrow> (s\<lparr>newMessage := []\<rparr>, [SetTimeout 300 ScrollIntoView]))"

text \<open>The whole handler, for a submission whose insert the backend answers with \<open>r\<close>.\<close>

definition handleSendMessage :: "unit response \<Rightarrow> app_state \<Rightarrow> app_state \<times> effect list" where
  "handleSendMessage r s =
     (case handleSendMessage_request s of
        None \<Rightarrow> (s, [PreventDefault])
      | Some row \<Rightarrow>
          (fst (handleSendMessage_resume r s),
           PreventDefault # InsertRequest row # snd (handleSendMessage_resume r s)))"

text \<open>The insert requests among the effects of a handler.\<close>

fun insert_requests :: "effect list \<Rightarrow> insert_row list" where
  "insert_requests [] = []"
| "insert_requests (InsertRequest row # fx) = row # insert_requests fx"
| "insert_requests (e # fx) = insert_requests fx"

subsection \<open>Authentication\<close>

text \<open>
  Lines 40 to 48: both \<^verbatim>\<open>getSession().then\<close> and the \<^verbatim>\<open>onAuthStateChange\<close> listener
  store the session they are given; nothing else writes the cell.
\<close>

definition setSession :: "session option \<Rightarrow> app_state \<Rightarrow> app_state" where
  "setSession ss s = s\<lparr>session := ss\<rparr>"

text \<open>
  \<^verbatim>\<open>handleLogin\<close> and \<^verbatim>\<open>handleLogout\<close> (lines 96 to 106) call the auth client and,
  when the answer carries an error, show a toast. Neither writes a state cell: the
  session changes only through the listener above. \<open>_start\<close> is the part of a handler
  before its \<^verbatim>\<open>await\<close>, which makes the call.
\<close>

definition handleLogin_resume :: "unit response \<Rightarrow> app_state \<Rightarrow> app_state \<times> effect list" where
  "handleLogin_resume r s =
     (case r of Failure e \<Rightarrow> (s, [ToastError ''Failed to login'']) | Success u \<Rightarrow> (s, []))"

definition handleLogin_start :: "app_state \<Rightarrow> app_state \<times> effect list" where
  "handleLogin_start s = (s, [SignInWithOAuth])"

definition handleLogin :: "unit response \<Rightarrow> app_state \<Rightarrow> app_state \<times> effect list" where
  "handleLogin r s =
     (fst (handleLogin_resume r (fst (handleLogin_start s))),
      snd (handleLogin_start s) @ snd (handleLogin_resume r (fst (handleLogin_start s))))"

definition handleLogout_resume :: "unit response \<Rightarrow> app_state \<Rightarrow> app_state \<times> effect list" where
  "handleLogout_resume r s =
     (case r of Failure e \<Rightarrow> (s, [ToastError ''Failed to logout'']) | Success u \<Rightarrow> (s, []))"

definition handleLogout_start :: "app_state \<Rightarrow> app_state \<times> effect list" where
  "handleLogout_start s = (s, [SignOut])"

definition handleLogout :: "unit response \<Rightarrow> app_state \<Rightarrow> app_state \<times> effect list" where
  "handleLogout r s =
     (fst (handleLogout_resume r (fst (handleLogout_start s))),
      snd (handleLogout_start s) @ snd (handleLogout_resume r (fst (handleLogout_start s))))"

subsection \<open>The newest page and the realtime feed\<close>

text \<open>
  The effect of lines 55 to 94 asks for the 50 newest rows, newest first, and on the
  answer stores them reversed (\<^verbatim>\<open>setMessages(data.reverse() || [])\<close>; an array is
  truthy, so the alternative is never taken). It runs at mount and again whenever
  \<^verbatim>\<open>isNotificationEnabled\<close> changes. The source calls this local function
  \<^verbatim>\<open>fetchMessages\<close> too; here it is \<open>initial_fetch\<close>, and the name is kept for the
  function of the component that takes an offset.
\<close>

definition initial_fetch_resume ::
  "message list response \<Rightarrow> app_state \<Rightarrow> app_state \<times> effect list" where
  "initial_fetch_resume r s =
     (case r of
        Failure e \<Rightarrow> (s, [ToastError ''Failed to fetch messages''])
      | Success data \<Rightarrow> (s\<lparr>messages := rev data\<rparr>, [ScrollIntoView]))"

definition initial_fetch ::
  "message list response \<Rightarrow> app_state \<Rightarrow> app_state \<times> effect list" where
  "initial_fetch r s =
     (fst (initial_fetch_resume r s), SelectLimit 50 # snd (initial_fetch_resume r s))"

text \<open>
  The handler of the INSERT events (lines 80 to 87) appends the new row; the effect is
  set up again for every value of \<^verbatim>\<open>isNotificationEnabled\<close>, so the handler sees the
  current one.
\<close>

definition on_insert :: "message \<Rightarrow> app_state \<Rightarrow> app_state \<times> effect list" where
  "on_insert m s =
     (s\<lparr>messages := messages s @ [m]\<rparr>,
      if isNotificationEnabled s then [ConsoleLog (content m), PlaySound] else [])"

subsection \<open>Older pages\<close>

text \<open>
  \<^verbatim>\<open>fetchMessages(offset)\<close> (lines 133 to 171). Before the \<^verbatim>\<open>await\<close> it sets
  \<^verbatim>\<open>isLoading\<close> and asks for the rows \<open>offset .. offset + MESSAGES_PER_PAGE - 1\<close>, newest
  first.
\<close>

definition fetchMessages_start :: "nat \<Rightarrow> app_state \<Rightarrow> app_state \<times> effect list" where
  "fetchMessages_start offset s =
     (s\<lparr>isLoading := True\<rparr>, [SelectRange offset (offset + MESSAGES_PER_PAGE - 1)])"

text \<open>
  After the \<^verbatim>\<open>await\<close> it looks the element \<^verbatim>\<open>messages\<close> up (\<open>box\<close> is what
  \<^verbatim>\<open>getElementById\<close> returns then) and computes \<^verbatim>\<open>distanceFromBottom\<close>; on an error it
  shows the toast and clears \<^verbatim>\<open>isLoading\<close>; otherwise it clears \<^verbatim>\<open>hasMore\<close> on a short
  page, replaces the list (offset 0) or puts the reversed page in front of it, and in the
  latter case asks for an animation frame whose callback is \<open>restore_scroll\<close> with the
  distance it computed.

  \<^verbatim>\<open>data.reverse()\<close> reverses the array in place. For offset 0 it is an argument of
  \<^verbatim>\<open>setMessages\<close>, evaluated once. Otherwise it stands inside the updater
  \<^verbatim>\<open>(prev) => [...data.reverse(), ...prev]\<close> (line 160), which React runs when it
  processes the update, so every run of the updater reverses \<^verbatim>\<open>data\<close> once more.
  \<open>runs\<close> is the number of times the updater has run when it returns the list that React
  keeps: 1 in a production build, 2 where React's development StrictMode runs an updater a
  second time and keeps that result.
\<close>

fun reversed_in_place :: "nat \<Rightarrow> 'a list \<Rightarrow> 'a list" where
  "reversed_in_place 0 xs = xs"
| "reversed_in_place (Suc n) xs = reversed_in_place n (rev xs)"

definition distance_from_bottom :: "scroll_box \<Rightarrow> int" where
  "distance_from_bottom box = scrollHeight box - scrollTop box"

definition fetchMessages_resume ::
  "nat \<Rightarrow> message list response \<Rightarrow> scroll_box option \<Rightarrow> nat \<Rightarrow> app_state
     \<Rightarrow> app_state \<times> effect list" where
  "fetchMessages_resume offset r box runs s =
     (let distanceFromBottom = (case box of Some b \<Rightarrow> distance_from_bottom b | None \<Rightarrow> 0)
      in case r of
           Failure e \<Rightarrow> (s\<lparr>isLoading := False\<rparr>, [ToastError ''Failed to fetch messages''])
         | Success data \<Rightarrow>
             (let s1 = (if length data < MESSAGES_PER_PAGE then s\<lparr>hasMore := False\<rparr> else s)
              in if offset = 0
                 then (s1\<lparr>messages := rev data, isLoading := False\<rparr>, [])
                 else (s1\<lparr>messages := reversed_in_place runs data @ messages s1,
                          isLoading := False\<rparr>,
                       case box of
                         Some b \<Rightarrow> [RequestAnimationFrame distanceFromBottom]
                       | None \<Rightarrow> [])))"

definition fetchMessages ::
  "nat \<Rightarrow> message list response \<Rightarrow> scroll_box option \<Rightarrow> nat \<Rightarrow> app_state
     \<Rightarrow> app_state \<times> effect list" where
  "fetchMessages offset r box runs s =
     (fst (fetchMessages_resume offset r box runs (fst (fetchMessages_start offset s))),
      snd (fetchMessages_start offset s)
        @ snd (fetchMessages_resume offset r box runs (fst (fetchMessages_start offset s))))"

text \<open>
  The callback of the animation frame (line 165):
  \<^verbatim>\<open>messagesDiv.scrollTop = messagesDiv.scrollHeight - distanceFromBottom\<close>, on the element
  as it is when the frame runs.
\<close>

definition restore_scroll :: "int \<Rightarrow> scroll_box \<Rightarrow> scroll_box" where
  "restore_scroll distanceFromBottom box =
     set_scrollTop (scrollHeight box - distanceFromBottom) box"

text \<open>
  The anchoring as the specification words it, for comparison: the distance is taken from
  the element as it was before the fetch.
\<close>

definition anchored_as_specified :: "scroll_box \<Rightarrow> scroll_box \<Rightarrow> scroll_box" where
  "anchored_as_specified box_before_fetch box =
     set_scrollTop (scrollHeight box - distance_from_bottom box_before_fetch) box"

subsection \<open>What the render shows\<close>

text \<open>
  Lines 217 to 227: the button is rendered under \<^verbatim>\<open>hasMore &&\<close>, disabled while
  loading, and calls \<^verbatim>\<open>fetchMessages(messages.length)\<close>. Lines 348 to 364: the input
  and the submit button carry \<^verbatim>\<open>disabled={!session}\<close>.
\<close>

definition load_more_rendered :: "app_state \<Rightarrow> bool" where
  "load_more_rendered s = hasMore s"

definition load_more_disabled :: "app_state \<Rightarrow> bool" where
  "load_more_disabled s = isLoading s"

definition input_disabled :: "app_state \<Rightarrow> bool" where
  "input_disabled s = (session s = None)"

definition submit_disabled :: "app_state \<Rightarrow> bool" where
  "submit_disabled s = (session s = None)"

subsection \<open>The component as a transition system\<close>

text \<open>
  One event is one callback of the event loop: a user action, or the arrival of an answer
  or of a pushed event. A click is possible only on a control that is rendered and
  enabled. \<open>LoadMoreDone\<close> carries the offset its request was made with, the element
  as found when the answer arrives, and the number of runs of the updater.
\<close>

datatype event =
    Mount
  | AuthStateChange "session option"
  | InitialFetchDone "message list response"
  | RealtimeInsert message
  | ClickLogin
  | LoginDone "unit response"
  | ClickLogout
  | LogoutDone "unit response"
  | Change jsstring
  | Submit
  | InsertDone "unit response"
  | ClickLoadMore
  | LoadMoreDone nat "message list response" "scroll_box option" nat
  | ToggleNotification

fun step :: "event \<Rightarrow> app_state \<Rightarrow> app_state \<times> effect list" where
  "step Mount s = (s, [SelectLimit 50])"
| "step (AuthStateChange ss) s = (setSession ss s, [])"
| "step (InitialFetchDone r) s = initial_fetch_resume r s"
| "step (RealtimeInsert m) s = on_insert m s"
| "step ClickLogin s = (if session s = None then handleLogin_start s else (s, []))"
| "step (LoginDone r) s = handleLogin_resume r s"
| "step ClickLogout s = (if session s = None then (s, []) else handleLogout_start s)"
| "step (LogoutDone r) s = handleLogout_resume r s"
| "step (Change v) s = (if session s = None then s else s\<lparr>newMessage := v\<rparr>, [])"
| "step Submit s =
     (s, PreventDefault #
         (case handleSendMessage_request s of None \<Rightarrow> [] | Some row \<Rightarrow> [InsertRequest row]))"
| "step (InsertDone r) s = handleSendMessage_resume r s"
| "step ClickLoadMore s =
     (if load_more_rendered s \<and> \<not> load_more_disabled s
      then fetchMessages_start (length (messages s)) s else (s, []))"
| "step (LoadMoreDone offset r box runs) s = fetchMessages_resume offset r box runs s"
| "step ToggleNotification s =
     (s\<lparr>isNotificationEnabled := \<not> isNotificationEnabled s\<rparr>, [SelectLimit 50])"

fun run :: "event list \<Rightarrow> app_state \<Rightarrow> app_state" where
  "run [] s = s"
| "run (e # es) s = run es (fst (step e s))"

subsection \<open>Display order, the table and the channel\<close>
















subsection \<open>Typing indicators\<close>

text \<open>
  The revision of \<^verbatim>\<open>App.tsx\<close> that adds typing indicators and the stored preference is
  carried by \<^verbatim>\<open>supabase/migrations/20250119063339_blue_sea.sql\<close>, after the SQL, from
  line 281 of that file; the line numbers of this and the next subsection are lines of that
  file. \<^verbatim>\<open>TypingUser\<close> is lines 305 to 308, \<^verbatim>\<open>TYPING_TIMEOUT\<close> line 320, the effect
  lines 338 to 373.

  \<^verbatim>\<open>typingUsers\<close> is an object used as a dictionary from user id to \<^verbatim>\<open>TypingUser\<close>.
  Its keys keep their insertion order, which is the order the names are rendered in, so it
  is an association list: \<^verbatim>\<open>{...prev, [user_id]: v}\<close> replaces the value of a key that
  is present, in place, and adds a new key at the end, as \<^const>\<open>AList.update\<close> does.
  (An object lists keys that are array indices first, in numeric order; the ids are
  values of the column \<^verbatim>\<open>user_id uuid\<close>, which are not.)
  \<^verbatim>\<open>Date.now()\<close> is an argument, in milliseconds.

  The effect returns at once while there is no session, and is torn down and set up again
  when the session changes, so the interval timer runs only under a session and starts
  anew with each one.
\<close>

record typing_user =
  typing_user_name :: jsstring
  timestamp :: int

type_synonym typing_users = "(jsstring \<times> typing_user) list"

definition TYPING_TIMEOUT :: int where
  "TYPING_TIMEOUT = 3000"

text \<open>The delay given to \<^verbatim>\<open>setInterval\<close> (line 367), which the source does not name.\<close>

definition SWEEP_INTERVAL :: int where
  "SWEEP_INTERVAL = 1000"

text \<open>The handler of the \<^verbatim>\<open>typing\<close> broadcast (lines 343 to 352).\<close>

definition on_typing :: "jsstring \<Rightarrow> jsstring \<Rightarrow> int \<Rightarrow> typing_users \<Rightarrow> typing_users" where
  "on_typing u n now prev = AList.update u \<lparr>typing_user_name = n, timestamp = now\<rparr> prev"

text \<open>
  The callback of the interval (lines 356 to 366): a copy of the dictionary without the
  entries for which \<^verbatim>\<open>now - data.timestamp > TYPING_TIMEOUT\<close>.
\<close>

definition sweep_typing :: "int \<Rightarrow> typing_users \<Rightarrow> typing_users" where
  "sweep_typing now prev =
     filter (\<lambda>(u, data). \<not> (now - timestamp data > TYPING_TIMEOUT)) prev"

text \<open>
  The names the render lists (lines 691 to 702): those of all entries, but for the
  session user's own name.
\<close>

definition typing_names :: "typing_users \<Rightarrow> jsstring option \<Rightarrow> jsstring list" where
  "typing_names tu own = filter (\<lambda>n. Some n \<noteq> own) (map (typing_user_name \<circ> snd) tu)"

datatype typing_event = Broadcast jsstring jsstring int | Sweep int

fun typing_step :: "typing_event \<Rightarrow> typing_users \<Rightarrow> typing_users" where
  "typing_step (Broadcast u n now) tu = on_typing u n now tu"
| "typing_step (Sweep now) tu = sweep_typing now tu"

fun typing_run :: "typing_event list \<Rightarrow> typing_users \<Rightarrow> typing_users" where
  "typing_run [] tu = tu"
| "typing_run (e # es) tu = typing_run es (typing_step e tu)"

fun refreshes :: "jsstring \<Rightarrow> typing_event \<Rightarrow> bool" where
  "refreshes u (Broadcast v n now) = (v = u)"
| "refreshes u (Sweep now) = False"

text \<open>
  A timer whose first callback runs at \<open>first\<close> and which is on time runs its callbacks
  at \<open>first\<close>, \<open>first + SWEEP_INTERVAL\<close>, and so on. \<open>due_between first lo hi\<close>
  lists those of these instants that lie strictly between \<open>lo\<close> and \<open>hi\<close>.
\<close>

definition due_between :: "int \<Rightarrow> int \<Rightarrow> int \<Rightarrow> int list" where
  "due_between first lo hi =
     filter (\<lambda>t. lo < t \<and> t < hi)
       (map (\<lambda>k. first + SWEEP_INTERVAL * int k)
            [0 ..< nat ((hi - first) div SWEEP_INTERVAL + 1)])"

subsection \<open>The stored notification preference\<close>

text \<open>
  Lines 329 to 336 of the same file. Local storage is a dictionary from strings to
  strings; \<^verbatim>\<open>getItem\<close> of a key that is absent is \<^verbatim>\<open>null\<close>. The cell starts as
  \<^verbatim>\<open>getItem("isNotificationEnabled") === "true" || false\<close>, and
  \<^verbatim>\<open>setNotificationEnabled(value)\<close> sets the cell and stores \<^verbatim>\<open>value.toString()\<close>.
  The button (line 539) calls it with the negation of the cell.
\<close>

type_synonym local_storage = "string \<rightharpoonup> string"

definition bool_toString :: "bool \<Rightarrow> string" where
  "bool_toString b = (if b then ''true'' else ''false'')"

definition startup_isNotificationEnabled :: "local_storage \<Rightarrow> bool" where
  "startup_isNotificationEnabled st = (st ''isNotificationEnabled'' = Some ''true'' \<or> False)"

definition setNotificationEnabled :: "bool \<Rightarrow> local_storage \<Rightarrow> bool \<times> local_storage" where
  "setNotificationEnabled v st = (v, st(''isNotificationEnabled'' \<mapsto> bool_toString v))"

definition toggle_notification :: "bool \<times> local_storage \<Rightarrow> bool \<times> local_storage" where
  "toggle_notification cs = setNotificationEnabled (\<not> fst cs) (snd cs)"

subsection \<open>The auth client, and auxiliary predicates\<close>

text \<open>
  Modelled from the spec: the auth provider, which the repository delegates to ("Auth:
  delegate to the external provider's OAuth sign-in/sign-out flow"; the session is
  "destroyed on logout or expiry; owned by the external auth provider, mirrored locally").
  \<open>auth_client r fx\<close> lists the callbacks of the component that the auth client makes
  in reaction to the call \<open>fx\<close> when the provider's outcome is \<open>r\<close>: a sign-out that
  succeeds destroys the session, reports the null session to the listener and answers;
  one that fails answers with the error and reports nothing; a sign-in answers. It reacts
  to no other call.
\<close>

definition auth_client :: "unit response \<Rightarrow> effect \<Rightarrow> event list" where
  "auth_client r fx =
     (case fx of
        SignOut \<Rightarrow>
          (case r of
             Success u \<Rightarrow> [AuthStateChange None, LogoutDone r]
           | Failure e \<Rightarrow> [LogoutDone r])
      | SignInWithOAuth \<Rightarrow> [LoginDone r]
      | _ \<Rightarrow> [])"

text \<open>
  The state once the auth client has reacted to every call that a handler has made.
\<close>

definition settle :: "unit response \<Rightarrow> app_state \<times> effect list \<Rightarrow> app_state" where
  "settle r sf = run (concat (map (auth_client r) (snd sf))) (fst sf)"

text \<open>The events through which the auth client reports a session.\<close>

fun is_auth_change :: "event \<Rightarrow> bool" where
  "is_auth_change (AuthStateChange ss) = True"
| "is_auth_change e = False"

text \<open>Every entry of user \<open>u\<close> in the dictionary carries the timestamp \<open>T\<close>.\<close>

definition stamped :: "jsstring \<Rightarrow> int \<Rightarrow> typing_users \<Rightarrow> bool" where
  "stamped u T tu \<longleftrightarrow> (\<forall>d. (u, d) \<in> set tu \<longrightarrow> timestamp d = T)"

subsection \<open>Concrete inputs\<close>

text \<open>
  A signed-in user \<^verbatim>\<open>u1\<close> named \<^verbatim>\<open>al\<close>, messages that differ in their instant only, a
  draft \<^verbatim>\<open>hi\<close> and a draft made of a space and an ideographic space.
\<close>

definition ex_user :: user where
  "ex_user = \<lparr>uid = [0x75, 0x31], email = Some [0x61, 0x40, 0x62],
     user_metadata = \<lparr>meta_user_name = Some [0x61, 0x6C], avatar_url = None\<rparr>\<rparr>"

definition ex_session :: session where
  "ex_session = \<lparr>user = ex_user\<rparr>"

definition ex_msg :: "int \<Rightarrow> message" where
  "ex_msg t = \<lparr>msg_id = [word_of_int t], user_id = [0x75, 0x31], content = [0x68, 0x69],
     created_at = t, user_avatar = None, user_name = Some [0x61, 0x6C]\<rparr>"

definition ex_draft_state :: app_state where
  "ex_draft_state = initial_state\<lparr>session := Some ex_session, newMessage := [0x68, 0x69]\<rparr>"

definition ex_blank_state :: app_state where
  "ex_blank_state = initial_state\<lparr>session := Some ex_session, newMessage := [0x20, 0x3000]\<rparr>"













definition later_events :: "event list" where
  "later_events =
     [AuthStateChange (Some ex_session), RealtimeInsert (ex_msg 2), ClickLoadMore,
      LoadMoreDone 51 (Success [ex_msg 0]) None 1, ToggleNotification,
      InitialFetchDone (Success [ex_msg 2, ex_msg 1])]"

definition after_logout_events :: "event list" where
  "after_logout_events =
     [RealtimeInsert (ex_msg 2), Change [0x68, 0x69], Submit, ToggleNotification]"

text \<open>
  The element when the button is clicked, when the answer arrives (the reader has scrolled
  down by 300 pixels meanwhile), and in the animation frame (400 pixels of older messages
  have been put in front).
\<close>

definition box_at_click :: scroll_box where
  "box_at_click = \<lparr>scrollHeight = 1000, scrollTop = 200, clientHeight = 500\<rparr>"

definition box_at_answer :: scroll_box where
  "box_at_answer = \<lparr>scrollHeight = 1000, scrollTop = 500, clientHeight = 500\<rparr>"

definition box_in_frame :: scroll_box where
  "box_in_frame = \<lparr>scrollHeight = 1400, scrollTop = 500, clientHeight = 500\<rparr>"

text \<open>
  The element scrolled to its top when the answer arrives, and in the animation frame
  after an empty last page: nothing was put in front and the button, 40 pixels high, is
  no longer rendered.
\<close>

definition box_at_top :: scroll_box where
  "box_at_top = \<lparr>scrollHeight = 1000, scrollTop = 0, clientHeight = 500\<rparr>"

definition box_without_button :: scroll_box where
  "box_without_button = \<lparr>scrollHeight = 960, scrollTop = 0, clientHeight = 500\<rparr>"

text \<open>Two typists, and the callbacks that follow a broadcast of the first at instant 0.\<close>

definition ex_typist :: jsstring where
  "ex_typist = [0x75, 0x32]"

definition ex_other :: jsstring where
  "ex_other = [0x75, 0x33]"

definition ex_typing_events :: "typing_event list" where
  "ex_typing_events =
     [Sweep 1000, Broadcast ex_other [0x62] 1500, Sweep 2000, Sweep 3000, Sweep 4000]"

definition boundary_sweeps :: "typing_event list" where
  "boundary_sweeps = [Sweep 1000, Sweep 2000, Sweep 3000]"

section \<open>Properties\<close>

subsection \<open>Submission\<close>

text \<open>
  C1. With a session and a draft that is not empty once trimmed, \<^verbatim>\<open>handleSendMessage\<close>
  makes exactly one insert request, and its \<^verbatim>\<open>user_id\<close> is the id of the session's
  user; with no session, or a draft that is empty or all white space, it makes none. This
  holds whatever the backend answers.
\<close>

theorem send_issues_one_insert:
  "(session s = Some ss \<and> trim (newMessage s) \<noteq> [] \<longrightarrow>
      insert_requests (snd (handleSendMessage r s)) =
        [\<lparr>row_content = newMessage s,
          row_user_id = uid (user ss),
          row_user_name = js_or (meta_user_name (user_metadata (user ss))) (email (user ss)),
          row_user_avatar = avatar_url (user_metadata (user ss))\<rparr>] \<and>
      map row_user_id (insert_requests (snd (handleSendMessage r s))) = [uid (user ss)])
   \<and> (session s = None \<or> trim (newMessage s) = [] \<longrightarrow>
      insert_requests (snd (handleSendMessage r s)) = [])"
  by (cases r)
    (auto simp: handleSendMessage_def handleSendMessage_request_def
      handleSendMessage_resume_def split: option.splits)

theorem send_issues_one_insert_witness:
  "session ex_draft_state = Some ex_session \<and> trim (newMessage ex_draft_state) \<noteq> [] \<and>
   map row_user_id (insert_requests (snd (handleSendMessage (Success ()) ex_draft_state)))
     = [[0x75, 0x31]] \<and>
   trim (newMessage ex_blank_state) = [] \<and>
   insert_requests (snd (handleSendMessage (Success ()) ex_blank_state)) = []"
  using send_issues_one_insert [of ex_draft_state ex_session "Success ()"]
    send_issues_one_insert [of ex_blank_state ex_session "Success ()"]
  by (simp add: ex_draft_state_def ex_blank_state_def ex_session_def ex_user_def
      initial_state_def trim_def is_js_space_def)

text \<open>
  C9. An insert that fails leaves every state cell as it is, the draft and the list of
  messages among them, whatever the state is when the answer arrives; a submission that
  the guard stops changes nothing either; the draft becomes the empty string when the
  insert has been made and has succeeded.
\<close>

theorem failed_insert_keeps_draft:
  "handleSendMessage_resume (Failure err) s = (s, [ToastError ''Failed to send message'']) \<and>
   fst (handleSendMessage (Failure err) s) = s \<and>
   (handleSendMessage_request s = None \<longrightarrow> fst (handleSendMessage r s) = s) \<and>
   (handleSendMessage_request s \<noteq> None \<longrightarrow>
      fst (handleSendMessage (Success ()) s) = s\<lparr>newMessage := []\<rparr>)"
  by (auto simp: handleSendMessage_def handleSendMessage_resume_def split: option.splits)

theorem failed_insert_keeps_draft_witness:
  "handleSendMessage_request ex_blank_state = None \<and>
   fst (handleSendMessage (Success ()) ex_blank_state) = ex_blank_state \<and>
   handleSendMessage_request ex_draft_state \<noteq> None \<and>
   newMessage (fst (handleSendMessage (Failure (BackendError [])) ex_draft_state)) = [0x68, 0x69] \<and>
   newMessage (fst (handleSendMessage (Success ()) ex_draft_state)) = []"
  using failed_insert_keeps_draft [of "BackendError []" ex_blank_state "Success ()"]
    failed_insert_keeps_draft [of "BackendError []" ex_draft_state "Success ()"]
  by (simp add: handleSendMessage_request_def ex_draft_state_def ex_blank_state_def
      initial_state_def trim_def is_js_space_def)

subsection \<open>Display order\<close>




























subsection \<open>The end of pagination\<close>

lemma step_hasMore: "\<not> hasMore s \<Longrightarrow> \<not> hasMore (fst (step e s))"
proof (cases e)
  case (InitialFetchDone r)
  assume "\<not> hasMore s"
  with InitialFetchDone show ?thesis by (cases r) (simp_all add: initial_fetch_resume_def)
next
  case (LoginDone r)
  assume "\<not> hasMore s"
  with LoginDone show ?thesis by (cases r) (simp_all add: handleLogin_resume_def)
next
  case (LogoutDone r)
  assume "\<not> hasMore s"
  with LogoutDone show ?thesis by (cases r) (simp_all add: handleLogout_resume_def)
next
  case (InsertDone r)
  assume "\<not> hasMore s"
  with InsertDone show ?thesis by (cases r) (simp_all add: handleSendMessage_resume_def)
next
  case (LoadMoreDone offset r box runs)
  assume "\<not> hasMore s"
  with LoadMoreDone show ?thesis by (cases r) (simp_all add: fetchMessages_resume_def Let_def)
qed (simp_all add: setSession_def on_insert_def fetchMessages_start_def
    handleLogin_start_def handleLogout_start_def)

lemma run_hasMore: "\<not> hasMore s \<Longrightarrow> \<not> hasMore (run es s)"
  by (induction es arbitrary: s) (simp_all add: step_hasMore)

text \<open>
  C3. When a paginated fetch answers with fewer than \<open>MESSAGES_PER_PAGE\<close> rows,
  \<^verbatim>\<open>hasMore\<close> is false in the state it leaves, and after any further events \<open>es\<close> of the
  component it is still false, so the button is not rendered.
\<close>

theorem short_page_hides_load_more:
  assumes "length rows < MESSAGES_PER_PAGE"
  shows "\<not> hasMore (fst (fetchMessages_resume offset (Success rows) box runs s)) \<and>
         \<not> hasMore (run es (fst (fetchMessages_resume offset (Success rows) box runs s))) \<and>
         \<not> load_more_rendered
             (run es (fst (fetchMessages_resume offset (Success rows) box runs s)))"
proof -
  have "\<not> hasMore (fst (fetchMessages_resume offset (Success rows) box runs s))"
    using assms by (simp add: fetchMessages_resume_def Let_def)
  then show ?thesis
    unfolding load_more_rendered_def by (simp add: run_hasMore)
qed

theorem short_page_hides_load_more_witness:
  "length [ex_msg 1] < MESSAGES_PER_PAGE \<and>
   \<not> load_more_rendered
       (run later_events
          (fst (fetchMessages_resume 50 (Success [ex_msg 1]) None 1 initial_state)))"
  using short_page_hides_load_more [of "[ex_msg 1]" 50 None 1 initial_state later_events]
  by (simp add: MESSAGES_PER_PAGE_def)

subsection \<open>Typing indicators\<close>

lemma typing_run_append: "typing_run (es @ fs) tu = typing_run fs (typing_run es tu)"
  by (induction es arbitrary: tu) simp_all

lemma update_same_key_entry:
  "distinct (map fst al) \<Longrightarrow> (k, d) \<in> set (AList.update k v al) \<Longrightarrow> d = v"
  by (induction al) (auto split: if_splits simp: image_iff)

lemma update_other_key_entry:
  "k \<noteq> u \<Longrightarrow> (u, d) \<in> set (AList.update k v al) \<longleftrightarrow> (u, d) \<in> set al"
  by (induction al) auto

lemma typing_step_distinct:
  "distinct (map fst tu) \<Longrightarrow> distinct (map fst (typing_step e tu))"
  by (cases e) (simp_all add: on_typing_def sweep_typing_def distinct_update distinct_map_filter)

lemma typing_run_distinct_from:
  "distinct (map fst tu) \<Longrightarrow> distinct (map fst (typing_run es tu))"
  by (induction es arbitrary: tu) (simp_all add: typing_step_distinct)

lemma typing_run_distinct: "distinct (map fst (typing_run es []))"
  by (simp add: typing_run_distinct_from)

lemma stamped_step:
  "stamped u T tu \<Longrightarrow> \<not> refreshes u e \<Longrightarrow> stamped u T (typing_step e tu)"
  by (cases e) (auto simp: stamped_def on_typing_def sweep_typing_def update_other_key_entry)

lemma stamped_run:
  "stamped u T tu \<Longrightarrow> \<forall>e\<in>set es. \<not> refreshes u e \<Longrightarrow> stamped u T (typing_run es tu)"
  by (induction es arbitrary: tu) (simp_all add: stamped_step)

lemma absent_step:
  "u \<notin> fst ` set tu \<Longrightarrow> \<not> refreshes u e \<Longrightarrow> u \<notin> fst ` set (typing_step e tu)"
  by (cases e) (auto simp: on_typing_def sweep_typing_def dom_update)

lemma absent_run:
  "u \<notin> fst ` set tu \<Longrightarrow> \<forall>e\<in>set es. \<not> refreshes u e \<Longrightarrow> u \<notin> fst ` set (typing_run es tu)"
  by (induction es arbitrary: tu) (simp_all add: absent_step)

lemma sweep_evicts:
  "stamped u T tu \<Longrightarrow> T + TYPING_TIMEOUT < now \<Longrightarrow> u \<notin> fst ` set (sweep_typing now tu)"
  by (auto simp: stamped_def sweep_typing_def)

text \<open>
  An entry that is not refreshed is gone after the first sweep that runs later than
  \<open>TYPING_TIMEOUT\<close> after its timestamp, and stays away.
\<close>

lemma late_sweep_evicts:
  assumes "stamped u T tu"
    and "\<forall>e\<in>set es. \<not> refreshes u e"
    and "Sweep t \<in> set es" and "T + TYPING_TIMEOUT < t"
  shows "u \<notin> fst ` set (typing_run es tu)"
proof -
  from assms(3) obtain es1 es2 where es: "es = es1 @ Sweep t # es2"
    by (auto dest: split_list)
  have "stamped u T (typing_run es1 tu)"
    using assms(1,2) es by (simp add: stamped_run)
  then have "u \<notin> fst ` set (typing_step (Sweep t) (typing_run es1 tu))"
    using assms(4) by (simp add: sweep_evicts)
  then have "u \<notin> fst ` set (typing_run es2 (typing_step (Sweep t) (typing_run es1 tu)))"
    using assms(2) es by (simp add: absent_run)
  then show ?thesis by (simp add: es typing_run_append)
qed

text \<open>A timer that is on time has a callback in the last \<open>SWEEP_INTERVAL\<close> of the window.\<close>

lemma sweep_due_in_window:
  assumes "first \<le> T + TYPING_TIMEOUT + SWEEP_INTERVAL"
    and "T + TYPING_TIMEOUT + SWEEP_INTERVAL < r"
  shows "\<exists>t \<in> set (due_between first T r). T + TYPING_TIMEOUT < t"
proof -
  define k where "k = (if T + 3000 < first then 0 else nat ((T + 3000 - first) div 1000 + 1))"
  define t where "t = first + 1000 * int k"
  have lo: "T + 3000 < t" and hi: "t \<le> T + 4000"
    using assms unfolding t_def k_def TYPING_TIMEOUT_def SWEEP_INTERVAL_def
    by (auto split: if_splits)
  have "t < r" using hi assms(2) by (simp add: TYPING_TIMEOUT_def SWEEP_INTERVAL_def)
  have "int k \<le> (r - first) div 1000"
    using \<open>t < r\<close> unfolding t_def by linarith
  then have "k < nat ((r - first) div 1000 + 1)" by linarith
  then have "t \<in> set (due_between first T r)"
    using lo \<open>t < r\<close> unfolding due_between_def t_def SWEEP_INTERVAL_def
    by (auto simp: image_iff)
  with lo show ?thesis by (auto simp: TYPING_TIMEOUT_def)
qed

text \<open>
  C4, as stated, fails at the bound itself. The sweep keeps an entry whose age is exactly
  \<open>TYPING_TIMEOUT\<close>, the test being \<^verbatim>\<open>now - data.timestamp > TYPING_TIMEOUT\<close>. An
  entry recorded at 0, with the timer on time at 1000, 2000 and 3000, is still in the
  dictionary, and its name is listed, when all the callbacks due before the instant
  4000 = 0 + 3000 + 1000 have run: a render in that millisecond that comes before the
  timer's next callback shows it.
\<close>

theorem typing_entry_boundary_counterexample:
  "(0::int) + TYPING_TIMEOUT + SWEEP_INTERVAL \<le> 4000 \<and>
   due_between 1000 0 4000 = [1000, 2000, 3000] \<and>
   map_of (typing_run boundary_sweeps (on_typing ex_typist [0x61] 0 [])) ex_typist
     = Some \<lparr>typing_user_name = [0x61], timestamp = 0\<rparr> \<and>
   typing_names (typing_run boundary_sweeps (on_typing ex_typist [0x61] 0 [])) None = [[0x61]]"
  by code_simp

text \<open>
  C4, amended. Let the entry of user \<open>u\<close> be recorded at \<open>T\<close>, in a dictionary that
  the callbacks \<open>before\<close> have built, and let \<open>es\<close> be the callbacks that run between
  that and a render at \<open>r\<close>, none of them a broadcast of \<open>u\<close>.
  If the timer is on time, with its first callback at \<open>first\<close> no later than
  \<open>T + TYPING_TIMEOUT + SWEEP_INTERVAL\<close>, and every callback due before \<open>r\<close> has run, then
  at every render later than \<open>T + TYPING_TIMEOUT + SWEEP_INTERVAL\<close> the entry is absent
  from \<^verbatim>\<open>typingUsers\<close>.
\<close>

theorem typing_entry_expires:
  assumes "\<forall>e\<in>set es. \<not> refreshes u e"
    and "first \<le> T + TYPING_TIMEOUT + SWEEP_INTERVAL"
    and "T + TYPING_TIMEOUT + SWEEP_INTERVAL < r"
    and "\<forall>t\<in>set (due_between first T r). Sweep t \<in> set es"
  shows "map_of (typing_run es (on_typing u n T (typing_run before []))) u = None"
proof -
  have "distinct (map fst (typing_run before []))"
    by (simp add: typing_run_distinct)
  then have st: "stamped u T (on_typing u n T (typing_run before []))"
    by (auto simp: stamped_def on_typing_def dest: update_same_key_entry)
  obtain t where t: "Sweep t \<in> set es" "T + TYPING_TIMEOUT < t"
    using sweep_due_in_window [OF assms(2,3)] assms(4) by blast
  have "u \<notin> fst ` set (typing_run es (on_typing u n T (typing_run before [])))"
    by (rule late_sweep_evicts [OF st assms(1) t])
  then show ?thesis by (simp add: map_of_eq_None_iff)
qed

theorem typing_entry_expires_witness:
  "list_all (\<lambda>e. \<not> refreshes ex_typist e) ex_typing_events \<and>
   (1000::int) \<le> 0 + TYPING_TIMEOUT + SWEEP_INTERVAL \<and>
   0 + TYPING_TIMEOUT + SWEEP_INTERVAL < (4001::int) \<and>
   due_between 1000 0 4001 = [1000, 2000, 3000, 4000] \<and>
   list_all (\<lambda>t. Sweep t \<in> set ex_typing_events) (due_between 1000 0 4001) \<and>
   map_of (typing_run ex_typing_events (on_typing ex_typist [0x61] 0 (typing_run [] [])))
     ex_typist = None"
proof -
  have h2: "\<forall>e\<in>set ex_typing_events. \<not> refreshes ex_typist e"
    by (simp add: ex_typing_events_def ex_typist_def ex_other_def)
  have h3: "(1000::int) \<le> 0 + TYPING_TIMEOUT + SWEEP_INTERVAL"
    by (simp add: TYPING_TIMEOUT_def SWEEP_INTERVAL_def)
  have h4: "0 + TYPING_TIMEOUT + SWEEP_INTERVAL < (4001::int)"
    by (simp add: TYPING_TIMEOUT_def SWEEP_INTERVAL_def)
  have due: "due_between 1000 0 4001 = [1000, 2000, 3000, 4000]"
    by code_simp
  have h5: "\<forall>t\<in>set (due_between 1000 0 4001). Sweep t \<in> set ex_typing_events"
    unfolding due by (simp add: ex_typing_events_def)
  show ?thesis
    using h2 h3 h4 h5 due typing_entry_expires [OF h2 h3 h4 h5, of "[0x61]" "[]"]
    by (simp add: list_all_iff)
qed

subsection \<open>Scroll anchoring\<close>

text \<open>
  C5, as stated, fails in when the distance is taken: the source computes
  \<^verbatim>\<open>distanceFromBottom\<close> after the \<^verbatim>\<open>await\<close>, from the element as it is when the answer
  has arrived, not before the fetch. A reader who is 800 pixels from the bottom at the
  click and has scrolled to 500 pixels from the bottom when the answer arrives is put
  500 pixels from the bottom (\<^verbatim>\<open>scrollTop\<close> 900 of 1400), where the distance taken before
  the fetch would give \<^verbatim>\<open>scrollTop\<close> 600. Nor is the distance always left unchanged:
  when the page is empty and the button disappears, the distance 1000 taken at the top of
  the element exceeds the new \<^verbatim>\<open>scrollHeight\<close> 960, the assignment of -40 stores 0, and
  the distance from the bottom is 960.
\<close>

theorem anchor_capture_counterexample:
  "distance_from_bottom box_at_click = 800 \<and>
   snd (fetchMessages_resume 50 (Success [ex_msg 1]) (Some box_at_answer) 1 initial_state)
     = [RequestAnimationFrame 500] \<and>
   scrollTop (restore_scroll 500 box_in_frame) = 900 \<and>
   scrollTop (anchored_as_specified box_at_click box_in_frame) = 600 \<and>
   snd (fetchMessages_resume 50 (Success []) (Some box_at_top) 1 initial_state)
     = [RequestAnimationFrame 1000] \<and>
   distance_from_bottom (restore_scroll 1000 box_without_button) = 960"
  by (simp add: distance_from_bottom_def box_at_click_def box_at_answer_def box_in_frame_def
      box_at_top_def box_without_button_def fetchMessages_resume_def MESSAGES_PER_PAGE_def
      restore_scroll_def anchored_as_specified_def set_scrollTop_def)

text \<open>
  C5, amended. For a fetch with a non-zero offset that succeeds while the element exists,
  the distance from the bottom is taken when the answer arrives, before the list is
  updated, and the animation frame sets \<^verbatim>\<open>scrollTop\<close> to the new \<^verbatim>\<open>scrollHeight\<close> minus
  that distance, which leaves the distance from the bottom as it was taken, provided the
  new position is one the element can scroll to (the distance is at least the height of
  the viewport and at most the new \<^verbatim>\<open>scrollHeight\<close>).
\<close>

theorem anchor_restores_captured_distance:
  assumes "offset \<noteq> 0"
    and "clientHeight frame \<le> distance_from_bottom box"
    and "distance_from_bottom box \<le> scrollHeight frame"
  shows "snd (fetchMessages_resume offset (Success data) (Some box) runs s) =
           [RequestAnimationFrame (distance_from_bottom box)] \<and>
         scrollTop (restore_scroll (distance_from_bottom box) frame) =
           scrollHeight frame - distance_from_bottom box \<and>
         distance_from_bottom (restore_scroll (distance_from_bottom box) frame) =
           distance_from_bottom box"
  using assms
  by (simp add: fetchMessages_resume_def Let_def restore_scroll_def set_scrollTop_def
      distance_from_bottom_def)

theorem anchor_restores_captured_distance_witness:
  "(50::nat) \<noteq> 0 \<and>
   clientHeight box_in_frame \<le> distance_from_bottom box_at_answer \<and>
   distance_from_bottom box_at_answer \<le> scrollHeight box_in_frame \<and>
   distance_from_bottom (restore_scroll (distance_from_bottom box_at_answer) box_in_frame) = 500"
proof -
  have h1: "(50::nat) \<noteq> 0" by simp
  have h2: "clientHeight box_in_frame \<le> distance_from_bottom box_at_answer"
    by (simp add: box_in_frame_def box_at_answer_def distance_from_bottom_def)
  have h3: "distance_from_bottom box_at_answer \<le> scrollHeight box_in_frame"
    by (simp add: box_in_frame_def box_at_answer_def distance_from_bottom_def)
  have h4: "distance_from_bottom box_at_answer = 500"
    by (simp add: box_at_answer_def distance_from_bottom_def)
  from anchor_restores_captured_distance [OF h1 h2 h3] h1 h2 h3 h4 show ?thesis by simp
qed

subsection \<open>The stored preference\<close>

text \<open>
  C6. What \<^verbatim>\<open>setNotificationEnabled\<close> stores is what the next start reads:
  for either value \<open>v\<close>, and after a click on the button from either value \<open>b\<close> of the
  cell, the initial value computed from the storage is the value that was set.
\<close>

theorem preference_round_trip:
  "startup_isNotificationEnabled (snd (setNotificationEnabled v st)) = v \<and>
   fst (toggle_notification (b, st)) = (\<not> b) \<and>
   startup_isNotificationEnabled (snd (toggle_notification (b, st))) = (\<not> b)"
  by (simp add: startup_isNotificationEnabled_def setNotificationEnabled_def
      toggle_notification_def bool_toString_def)

subsection \<open>Logout\<close>

lemma step_session: "\<not> is_auth_change e \<Longrightarrow> session (fst (step e s)) = session s"
proof (cases e)
  case (InitialFetchDone r)
  then show ?thesis by (cases r) (simp_all add: initial_fetch_resume_def)
next
  case (LoginDone r)
  then show ?thesis by (cases r) (simp_all add: handleLogin_resume_def)
next
  case (LogoutDone r)
  then show ?thesis by (cases r) (simp_all add: handleLogout_resume_def)
next
  case (InsertDone r)
  then show ?thesis by (cases r) (simp_all add: handleSendMessage_resume_def)
next
  case (LoadMoreDone offset r box runs)
  then show ?thesis by (cases r) (simp_all add: fetchMessages_resume_def Let_def)
qed (simp_all add: on_insert_def fetchMessages_start_def handleLogin_start_def
    handleLogout_start_def)

lemma run_session: "\<forall>e\<in>set es. \<not> is_auth_change e \<Longrightarrow> session (run es s) = session s"
  by (induction es arbitrary: s) (simp_all add: step_session)



lemma failed_logout_keeps_session:
  "session s = Some ss \<Longrightarrow>
   settle (Failure err) (step ClickLogout s) = s \<and>
   snd (handleLogout (Failure err) s) = [SignOut, ToastError ''Failed to logout'']"
  by (simp add: settle_def auth_client_def handleLogout_def handleLogout_start_def
      handleLogout_resume_def)

text \<open>
  C7. With a session, a click on the logout button calls the auth client's sign-out, and
  nothing else. When the sign-out succeeds and the auth client has reacted, and after any
  further events \<open>es\<close> other than a report of the auth client, the session of the state
  \<open>s'\<close> is null, the input and the submit button are disabled and
  \<^verbatim>\<open>handleSendMessage\<close> returns at its guard. The last holds in every state \<open>t\<close> whose
  session is null: it changes no cell and makes no request.
\<close>

theorem logout_disables_submission:
  assumes "session s = Some ss"
    and "\<forall>e\<in>set es. \<not> is_auth_change e"
    and "s' = run es (settle (Success ()) (step ClickLogout s))"
  shows "snd (step ClickLogout s) = [SignOut] \<and>
         handleLogout (Success ()) s = (s, [SignOut]) \<and>
         session s' = None \<and> input_disabled s' \<and> submit_disabled s' \<and>
         handleSendMessage r s' = (s', [PreventDefault]) \<and>
         (session t = None \<longrightarrow>
            input_disabled t \<and> submit_disabled t \<and>
            handleSendMessage r t = (t, [PreventDefault]) \<and>
            insert_requests (snd (handleSendMessage r t)) = [])"
proof -
  have click: "step ClickLogout s = (s, [SignOut])"
    using assms(1) by (simp add: handleLogout_start_def)
  have whole: "handleLogout (Success ()) s = (s, [SignOut])"
    by (simp add: handleLogout_def handleLogout_start_def handleLogout_resume_def)
  have "settle (Success ()) (s, [SignOut])
          = run [AuthStateChange None, LogoutDone (Success ())] s"
    by (simp add: settle_def auth_client_def)
  then have "session (settle (Success ()) (s, [SignOut])) = None"
    by (simp add: setSession_def handleLogout_resume_def)
  then have "session (settle (Success ()) (step ClickLogout s)) = None"
    by (simp only: click)
  then have none: "session s' = None"
    using assms(2,3) by (simp add: run_session)
  have guard: "handleSendMessage r u = (u, [PreventDefault])" if "session u = None" for u
    using that by (simp add: handleSendMessage_def handleSendMessage_request_def)
  show ?thesis
    using click whole none guard
    by (simp add: input_disabled_def submit_disabled_def)
qed

theorem logout_disables_submission_witness:
  "session ex_draft_state = Some ex_session \<and>
   list_all (\<lambda>e. \<not> is_auth_change e) after_logout_events \<and>
   snd (step ClickLogout ex_draft_state) = [SignOut] \<and>
   session (run after_logout_events (settle (Success ()) (step ClickLogout ex_draft_state)))
     = None \<and>
   submit_disabled
     (run after_logout_events (settle (Success ()) (step ClickLogout ex_draft_state))) \<and>
   insert_requests (snd (handleSendMessage (Success ())
      (run after_logout_events (settle (Success ()) (step ClickLogout ex_draft_state))))) = []"
proof -
  have h1: "session ex_draft_state = Some ex_session"
    by (simp add: ex_draft_state_def)
  have h2: "\<forall>e\<in>set after_logout_events. \<not> is_auth_change e"
    by (simp add: after_logout_events_def)
  from logout_disables_submission [OF h1 h2 refl, of "Success ()"
      "run after_logout_events (settle (Success ()) (step ClickLogout ex_draft_state))"]
    h1 h2
  show ?thesis by (simp add: list_all_iff)
qed

subsection \<open>Backend errors\<close>

text \<open>
  C8. At each of the five call sites, what the handler does with an answer that carries
  an error is one call of \<^verbatim>\<open>toast.error\<close> and nothing else: no further request, no
  write to the console, no exception. It leaves the state as it is, but for
  \<^verbatim>\<open>isLoading\<close>, which the paginated fetch clears.
\<close>

theorem backend_error_only_toast:
  "handleLogin_resume (Failure err) s = (s, [ToastError ''Failed to login'']) \<and>
   handleLogout_resume (Failure err) s = (s, [ToastError ''Failed to logout'']) \<and>
   initial_fetch_resume (Failure err) s = (s, [ToastError ''Failed to fetch messages'']) \<and>
   fetchMessages_resume offset (Failure err) box runs s =
     (s\<lparr>isLoading := False\<rparr>, [ToastError ''Failed to fetch messages'']) \<and>
   handleSendMessage_resume (Failure err) s = (s, [ToastError ''Failed to send message''])"
  by (simp add: handleLogin_resume_def handleLogout_resume_def initial_fetch_resume_def
      fetchMessages_resume_def handleSendMessage_resume_def)

end
